theory Spec2Isabelle
  imports Main "HOL-Library.Word" "HOL-Library.Sublist" "HOL-Library.Char_ord"
    "HOL-Library.List_Lexorder"
begin

section \<open>The MarkItDown service: a shallow embedding of \<open>services/markitdown_api/main.py\<close>\<close>

text \<open>
  The module has two routes. \<open>POST /convert\<close> stages the uploaded bytes in a temporary
  file, hands the path to the third-party converter, removes the file and normalises
  whatever the converter returned to a string. \<open>GET /supported-extensions\<close> inspects the
  converter's handler registry and returns a sorted list of file extensions.

  The third-party parts (the converter, the file system, the standard output, the name
  chosen by \<open>tempfile\<close>) are parameters or explicit state. A name cannot start
  with an underscore in Isabelle: \<open>_to_markdown_text\<close> is \<open>to_markdown_text\<close> here and
  \<open>_supported_extensions\<close> is \<open>supported_extensions_impl\<close>.
\<close>

subsection \<open>Python values returned by the converter\<close>

text \<open>
  \<open>converter.convert\<close> returns a value of unknown shape. The normalisation looks at five
  things only: whether the value is \<open>None\<close>, whether it is a \<open>str\<close>, what
  \<open>getattr\<close> finds under a name, whether it is a \<open>tuple\<close> or \<open>list\<close> (and then its
  items), and what \<open>str()\<close> makes of it. An object carries exactly these: its attribute
  namespace, its items when it is an instance of \<open>tuple\<close> or \<open>list\<close>, and the text
  \<open>str()\<close> returns for it.
\<close>

datatype pyval =
    PyNone
  | PyStr string
  | PyObject (attrs: "string \<Rightarrow> pyval option") (seq_items: "pyval list option") (str_text: string)

fun isinstance_str :: "pyval \<Rightarrow> bool" where
  "isinstance_str (PyStr s) = True"
| "isinstance_str v = False"

text \<open>\<open>getattr(obj, name, None)\<close>: \<open>None\<close> and plain strings have neither attribute.\<close>

fun getattr_or_None :: "pyval \<Rightarrow> string \<Rightarrow> pyval" where
  "getattr_or_None (PyObject a items txt) name = (case a name of None \<Rightarrow> PyNone | Some v \<Rightarrow> v)"
| "getattr_or_None v name = PyNone"

text \<open>\<open>isinstance(converted, (tuple, list)) and converted\<close>: a sequence with an item.\<close>

fun nonempty_sequence :: "pyval \<Rightarrow> bool" where
  "nonempty_sequence (PyObject a (Some (x # xs)) txt) = True"
| "nonempty_sequence v = False"

text \<open>\<open>converted[-1]\<close>, read only where \<open>nonempty_sequence\<close> holds.\<close>

fun last_item :: "pyval \<Rightarrow> pyval" where
  "last_item (PyObject a (Some (x # xs)) txt) = last (x # xs)"
| "last_item v = PyNone"

fun py_str :: "pyval \<Rightarrow> string" where
  "py_str PyNone = ''None''"
| "py_str (PyStr s) = s"
| "py_str (PyObject a items txt) = txt"

fun the_str :: "pyval \<Rightarrow> string" where
  "the_str (PyStr s) = s"
| "the_str v = []"

text \<open>Lines 48 to 68. The result \<open>None\<close> of the source is \<open>None\<close> of the option type.\<close>

definition to_markdown_text :: "pyval \<Rightarrow> string option" where
  "to_markdown_text converted =
     (if converted = PyNone then None
      else if isinstance_str converted then Some (the_str converted)
      else
        (let text_attr = getattr_or_None converted ''text'' in
         if isinstance_str text_attr then Some (the_str text_attr)
         else
           (let markdown_attr = getattr_or_None converted ''markdown'' in
            if isinstance_str markdown_attr then Some (the_str markdown_attr)
            else if nonempty_sequence converted \<and> isinstance_str (last_item converted)
              then Some (the_str (last_item converted))
            else Some (py_str converted))))"

subsection \<open>The upload and the suffix of its file name\<close>

type_synonym bytes = "8 word list"

record upload =
  filename :: "string option"
  payload :: bytes

text \<open>
  \<open>Path(s).name\<close> and \<open>Path(s).suffix\<close> of \<open>pathlib\<close> on a POSIX host, as the standard
  library up to Python 3.13 computes them: the path is cut at \<open>/\<close>, empty components and
  \<open>.\<close> components are dropped, the name is the last component left (empty when there is
  none), and the suffix is \<open>name[i:]\<close> for \<open>i = name.rfind('.')\<close> provided
  \<open>0 < i < len(name) - 1\<close>.
\<close>

fun split_on :: "char \<Rightarrow> string \<Rightarrow> string list" where
  "split_on sep [] = [[]]"
| "split_on sep (c # cs) =
     (if c = sep then [] # split_on sep cs
      else (case split_on sep cs of [] \<Rightarrow> [[c]] | p # ps \<Rightarrow> (c # p) # ps))"

definition path_parts :: "string \<Rightarrow> string list" where
  "path_parts s = filter (\<lambda>p. p \<noteq> [] \<and> p \<noteq> ''.'') (split_on CHR ''/'' s)"

definition path_name :: "string \<Rightarrow> string" where
  "path_name s = (case path_parts s of [] \<Rightarrow> [] | p # ps \<Rightarrow> last (p # ps))"

text \<open>\<open>str.rfind\<close> for a single character: the highest index, or \<open>-1\<close>.\<close>

fun rfind :: "char \<Rightarrow> string \<Rightarrow> int" where
  "rfind c [] = - 1"
| "rfind c (x # xs) =
     (let r = rfind c xs in if 0 \<le> r then r + 1 else if x = c then 0 else - 1)"

definition path_suffix :: "string \<Rightarrow> string" where
  "path_suffix s =
     (let name = path_name s; i = rfind CHR ''.'' name in
      if 0 < i \<and> i < int (length name) - 1 then drop (nat i) name else [])"

text \<open>Line 19: \<open>Path(file.filename or "").suffix\<close>.\<close>

definition upload_suffix :: "string option \<Rightarrow> string" where
  "upload_suffix fn = path_suffix (case fn of None \<Rightarrow> [] | Some f \<Rightarrow> f)"


subsection \<open>The world around one request\<close>

text \<open>
  The handler acts on the file system and on the standard output. \<open>locked\<close> holds the
  paths the operating system refuses to unlink (a file in an append-only directory, a
  file another process holds open on Windows): \<open>os.unlink\<close> raises an \<open>OSError\<close> on those
  and on a path that does not exist, and removes the file otherwise.
\<close>

record world =
  files :: "string \<Rightarrow> bytes option"
  locked :: "string set"
  stdout :: "string list"

datatype os_error = FileNotFoundError | PermissionError

definition os_unlink :: "string \<Rightarrow> world \<Rightarrow> (os_error + unit) \<times> world" where
  "os_unlink path w =
     (if files w path = None then (Inl FileNotFoundError, w)
      else if path \<in> locked w then (Inl PermissionError, w)
      else (Inr (), w\<lparr>files := (files w)(path := None)\<rparr>))"

definition py_print :: "string \<Rightarrow> world \<Rightarrow> world" where
  "py_print line w = w\<lparr>stdout := stdout w @ [line]\<rparr>"

text \<open>
  Lines 20 to 22: \<open>NamedTemporaryFile(delete=False, suffix=suffix)\<close> creates a file whose
  name ends with the suffix, the payload is written to it and the file is closed. The
  part of the name in front of the suffix (directory, prefix, random characters) is
  chosen by \<open>tempfile\<close> and is the parameter \<open>stem\<close>.
\<close>

definition NamedTemporaryFile :: "string \<Rightarrow> string \<Rightarrow> bytes \<Rightarrow> world \<Rightarrow> string \<times> world" where
  "NamedTemporaryFile stem sfx contents w =
     (let tmp_path = stem @ sfx in (tmp_path, w\<lparr>files := (files w)(tmp_path \<mapsto> contents)\<rparr>))"

text \<open>
  \<open>converter.convert(path)\<close> either raises (\<open>Inl\<close> of the exception's text, what
  \<open>str(exc)\<close> gives) or returns a value; it may act on the world.
\<close>

type_synonym converter = "string \<Rightarrow> world \<Rightarrow> (string + pyval) \<times> world"

datatype http_exception = HTTPException (status_code: nat) (detail: string)

text \<open>
  Lines 14 to 39. The handler either raises an \<open>HTTPException\<close> (\<open>Inl\<close>) or returns the
  body of the plain-text response (\<open>Inr\<close>). The \<open>finally\<close> clause runs on both ways out of
  the \<open>try\<close>, after the \<open>print\<close> of the \<open>except\<close> clause; the result of \<open>os.unlink\<close> is
  dropped, as \<open>except OSError: pass\<close> drops it.
\<close>

definition convert_file :: "converter \<Rightarrow> string \<Rightarrow> upload \<Rightarrow> world \<Rightarrow> (http_exception + string) \<times> world" where
  "convert_file convert stem file w =
     (let contents = payload file in
      if contents = [] then (Inl (HTTPException 400 ''Uploaded file is empty.''), w)
      else
        (let sfx = upload_suffix (filename file);
             (tmp_path, w1) = NamedTemporaryFile stem sfx contents w;
             (outcome, w2) = convert tmp_path w1
         in case outcome of
              Inl exc \<Rightarrow>
                (let w3 = py_print (''Conversion error: '' @ exc) w2;
                     (unlinked, w4) = os_unlink tmp_path w3
                 in (Inl (HTTPException 422 (''Conversion failed: '' @ exc)), w4))
            | Inr converted \<Rightarrow>
                (let (unlinked, w3) = os_unlink tmp_path w2 in
                 case to_markdown_text converted of
                   None \<Rightarrow> (Inl (HTTPException 500 ''Conversion returned an unexpected format.''), w3)
                 | Some markdown \<Rightarrow> (Inr markdown, w3))))"

text \<open>
  What the framework sends: the status and detail of a raised \<open>HTTPException\<close>, and status
  200 with the returned text as body otherwise.
\<close>

definition response_status :: "http_exception + string \<Rightarrow> nat" where
  "response_status r = (case r of Inl e \<Rightarrow> status_code e | Inr body \<Rightarrow> 200)"

definition response_text :: "http_exception + string \<Rightarrow> string" where
  "response_text r = (case r of Inl e \<Rightarrow> detail e | Inr body \<Rightarrow> body)"

text \<open>The path of the staged file and the world the converter is called in.\<close>

definition staged_path :: "string \<Rightarrow> upload \<Rightarrow> string" where
  "staged_path stem file = stem @ upload_suffix (filename file)"

definition staged_world :: "string \<Rightarrow> upload \<Rightarrow> world \<Rightarrow> world" where
  "staged_world stem file w = w\<lparr>files := (files w)(staged_path stem file \<mapsto> payload file)\<rparr>"

subsection \<open>The handler registry and the extensions it yields\<close>

text \<open>
  \<open>getattr(converter, "_converters", None)\<close> finds nothing, a value that is not a list,
  or a list. Of an item of the list the code reads whether it has an attribute
  \<open>converter\<close> and, if so, the name of that attribute's type.
\<close>

datatype conv_reg = NoConverterAttr | HasConverter string

datatype registry = AttrMissing | NotAList | ConverterList "conv_reg list"

text \<open>\<open>str.lower()\<close> on the ASCII letters; every other character is left as it is.\<close>

definition lower_char :: "char \<Rightarrow> char" where
  "lower_char c =
     (case map_of (zip ''ABCDEFGHIJKLMNOPQRSTUVWXYZ'' ''abcdefghijklmnopqrstuvwxyz'') c of
        None \<Rightarrow> c
      | Some l \<Rightarrow> l)"

definition lower :: "string \<Rightarrow> string" where
  "lower s = map lower_char s"

text \<open>
  Lines 84 to 119: the chain of \<open>if\<close> and \<open>elif\<close> over the lowercased type name, returning
  what the taken branch adds to the set. \<open>m in name\<close> on strings is \<open>sublist m name\<close>.
\<close>

definition extensions_for :: "string \<Rightarrow> string list" where
  "extensions_for converter_name =
     (if sublist ''pdf'' converter_name then [''.pdf'']
      else if sublist ''docx'' converter_name then [''.docx'']
      else if sublist ''doc'' converter_name \<and> \<not> sublist ''docx'' converter_name then [''.doc'']
      else if sublist ''pptx'' converter_name then [''.pptx'']
      else if sublist ''ppt'' converter_name \<and> \<not> sublist ''pptx'' converter_name then [''.ppt'']
      else if sublist ''xlsx'' converter_name then [''.xlsx'']
      else if sublist ''xls'' converter_name \<and> \<not> sublist ''xlsx'' converter_name then [''.xls'']
      else if sublist ''csv'' converter_name then [''.csv'']
      else if sublist ''html'' converter_name then [''.html'', ''.htm'']
      else if sublist ''epub'' converter_name then [''.epub'']
      else if sublist ''ipynb'' converter_name then [''.ipynb'']
      else if sublist ''image'' converter_name
        then [''.png'', ''.jpg'', ''.jpeg'', ''.gif'', ''.bmp'', ''.tiff'', ''.webp'']
      else if sublist ''audio'' converter_name then [''.mp3'', ''.wav'', ''.m4a'', ''.flac'']
      else if sublist ''msg'' converter_name then [''.msg'']
      else if sublist ''plaintext'' converter_name then [''.txt'', ''.md'', ''.rst'', ''.log'']
      else if sublist ''zip'' converter_name then [''.zip'']
      else if sublist ''rss'' converter_name then [''.xml'', ''.rss'']
      else if sublist ''json'' converter_name then [''.json'']
      else [])"

text \<open>Lines 78 to 119: the body of the loop, for one item of the list.\<close>

definition visit :: "conv_reg \<Rightarrow> string set \<Rightarrow> string set" where
  "visit item extensions =
     (case item of
        NoConverterAttr \<Rightarrow> extensions
      | HasConverter type_name \<Rightarrow> extensions \<union> set (extensions_for (lower type_name)))"

text \<open>Lines 73 to 119: the set after the loop (empty unless the registry is a list with an item).\<close>

definition introspected :: "registry \<Rightarrow> string set" where
  "introspected reg =
     (case reg of
        ConverterList (c # cs) \<Rightarrow> fold visit (c # cs) {}
      | _ \<Rightarrow> {})"

definition always_added :: "string list" where
  "always_added = [''.yaml'', ''.yml'', ''.tsv'', ''.rtf'', ''.eml'', ''.tex'']"

definition fallback_list :: "string set" where
  "fallback_list =
     {''.pdf'', ''.doc'', ''.docx'', ''.ppt'', ''.pptx'', ''.xls'', ''.xlsx'',
      ''.txt'', ''.md'', ''.html'', ''.htm'', ''.csv'', ''.tsv'', ''.json'',
      ''.xml'', ''.yaml'', ''.yml'', ''.ipynb'', ''.rst'', ''.tex'', ''.rtf'',
      ''.eml'', ''.msg'', ''.epub'', ''.zip''}"

text \<open>Line 122: the set when the test of line 125 is made.\<close>

definition extensions_after_update :: "registry \<Rightarrow> string set" where
  "extensions_after_update reg = introspected reg \<union> set always_added"

text \<open>
  Lines 71 to 133. \<open>sorted\<close> of a set of strings is the list of its elements in ascending
  order, strings compared character by character (the order of \<open>List_Lexorder\<close> over
  \<open>Char_ord\<close>).
\<close>

definition supported_extensions_impl :: "registry \<Rightarrow> string list" where
  "supported_extensions_impl reg =
     (let extensions = extensions_after_update reg;
          extensions = (if extensions = {} then fallback_list else extensions)
      in sorted_list_of_set extensions)"

datatype json = JString string | JArray "json list" | JObject "(string \<times> json) list"

record json_response =
  status :: nat
  content :: json

text \<open>Lines 42 to 45; a \<open>JSONResponse\<close> has status 200 unless told otherwise.\<close>

definition supported_extensions :: "registry \<Rightarrow> json_response" where
  "supported_extensions reg =
     \<lparr>status = 200,
      content = JObject [(''extensions'', JArray (map JString (supported_extensions_impl reg)))]\<rparr>"

text \<open>
  The lookup table of lines 84 to 119 read as data: marker, the marker whose presence
  excludes the rule (if any), and the extensions of the rule.
\<close>

definition marker_rules :: "(string \<times> string option \<times> string list) list" where
  "marker_rules =
     [(''pdf'', None, [''.pdf'']),
      (''docx'', None, [''.docx'']),
      (''doc'', Some ''docx'', [''.doc'']),
      (''pptx'', None, [''.pptx'']),
      (''ppt'', Some ''pptx'', [''.ppt'']),
      (''xlsx'', None, [''.xlsx'']),
      (''xls'', Some ''xlsx'', [''.xls'']),
      (''csv'', None, [''.csv'']),
      (''html'', None, [''.html'', ''.htm'']),
      (''epub'', None, [''.epub'']),
      (''ipynb'', None, [''.ipynb'']),
      (''image'', None, [''.png'', ''.jpg'', ''.jpeg'', ''.gif'', ''.bmp'', ''.tiff'', ''.webp'']),
      (''audio'', None, [''.mp3'', ''.wav'', ''.m4a'', ''.flac'']),
      (''msg'', None, [''.msg'']),
      (''plaintext'', None, [''.txt'', ''.md'', ''.rst'', ''.log'']),
      (''zip'', None, [''.zip'']),
      (''rss'', None, [''.xml'', ''.rss'']),
      (''json'', None, [''.json''])]"

fun rule_matches :: "string \<Rightarrow> string \<times> string option \<times> string list \<Rightarrow> bool" where
  "rule_matches name (marker, None, exts) = sublist marker name"
| "rule_matches name (marker, Some other, exts) = (sublist marker name \<and> \<not> sublist other name)"

definition first_match :: "string \<Rightarrow> string list" where
  "first_match name =
     (case find (rule_matches name) marker_rules of
        None \<Rightarrow> []
      | Some (marker, other, exts) \<Rightarrow> exts)"

text \<open>What a handler would add if every rule it matches contributed.\<close>

definition all_matches :: "string \<Rightarrow> string list" where
  "all_matches name = concat (map (\<lambda>(marker, other, exts). exts) (filter (rule_matches name) marker_rules))"

subsection \<open>Converters used as concrete inputs\<close>

definition raising :: "string \<Rightarrow> converter" where
  "raising message path w = (Inl message, w)"

definition returning :: "pyval \<Rightarrow> converter" where
  "returning v path w = (Inr v, w)"

section \<open>Properties\<close>

subsection \<open>Auxiliary facts about the handler\<close>

lemma convert_file_nonempty:
  assumes "payload file \<noteq> []"
    and "convert (staged_path stem file) (staged_world stem file w) = (outcome, w2)"
  shows "convert_file convert stem file w =
     (case outcome of
        Inl exc \<Rightarrow>
          (Inl (HTTPException 422 (''Conversion failed: '' @ exc)),
           snd (os_unlink (staged_path stem file) (py_print (''Conversion error: '' @ exc) w2)))
      | Inr converted \<Rightarrow>
          (case to_markdown_text converted of
             None \<Rightarrow> Inl (HTTPException 500 ''Conversion returned an unexpected format.'')
           | Some markdown \<Rightarrow> Inr markdown,
           snd (os_unlink (staged_path stem file) w2)))"
  using assms
  by (simp add: convert_file_def NamedTemporaryFile_def staged_path_def staged_world_def Let_def
      split: sum.splits prod.splits option.splits)

lemma stdout_unlink: "stdout (snd (os_unlink p w)) = stdout w"
  by (simp add: os_unlink_def)



subsection \<open>The empty upload\<close>

text \<open>
  C2. An upload whose payload has no bytes is answered with status 400 and the detail
  \<open>Uploaded file is empty.\<close>, whatever its file name: the world is left as it was (no
  file is staged) and the answer is the same for every converter (none is called).
\<close>

theorem empty_upload_is_400:
  assumes "payload file = []"
  shows "convert_file convert stem file w = (Inl (HTTPException 400 ''Uploaded file is empty.''), w)
    \<and> response_status (fst (convert_file convert stem file w)) = 400
    \<and> response_text (fst (convert_file convert stem file w)) = ''Uploaded file is empty.''"
  using assms by (simp add: convert_file_def response_status_def response_text_def)

theorem empty_upload_is_400_witness:
  "payload \<lparr>filename = Some ''empty.txt'', payload = []\<rparr> = []
   \<and> convert_file (returning (PyStr ''never'')) ''/tmp/tmp8k2jq0zd''
        \<lparr>filename = Some ''empty.txt'', payload = []\<rparr>
        \<lparr>files = Map.empty, locked = {}, stdout = []\<rparr>
      = (Inl (HTTPException 400 ''Uploaded file is empty.''),
         \<lparr>files = Map.empty, locked = {}, stdout = []\<rparr>)"
  using empty_upload_is_400 [of "\<lparr>filename = Some ''empty.txt'', payload = []\<rparr>"
      "returning (PyStr ''never'')" "''/tmp/tmp8k2jq0zd''"
      "\<lparr>files = Map.empty, locked = {}, stdout = []\<rparr>"]
  by simp

subsection \<open>A converter that raises\<close>

text \<open>
  C3. When the payload is not empty and the converter raises an error whose text is
  \<open>E\<close>, the answer has status 422 and the detail \<open>Conversion failed: \<close> followed by \<open>E\<close>,
  and the line \<open>Conversion error: \<close> followed by \<open>E\<close> is the last one on the standard
  output when the handler is left.
\<close>

theorem converter_error_is_422:
  assumes "payload file \<noteq> []"
    and "convert (staged_path stem file) (staged_world stem file w) = (Inl E, w2)"
  shows "fst (convert_file convert stem file w) = Inl (HTTPException 422 (''Conversion failed: '' @ E))
    \<and> response_status (fst (convert_file convert stem file w)) = 422
    \<and> response_text (fst (convert_file convert stem file w)) = ''Conversion failed: '' @ E
    \<and> stdout (snd (convert_file convert stem file w)) = stdout w2 @ [''Conversion error: '' @ E]"
  using assms convert_file_nonempty [of "file" convert stem w "Inl E" w2]
  by (simp add: response_status_def response_text_def stdout_unlink py_print_def)

theorem converter_error_is_422_witness:
  "payload \<lparr>filename = Some ''scan.pdf'', payload = [0x25, 0x50]\<rparr> \<noteq> []
   \<and> fst (convert_file (raising ''corrupt stream'') ''/tmp/tmp8k2jq0zd''
        \<lparr>filename = Some ''scan.pdf'', payload = [0x25, 0x50]\<rparr>
        \<lparr>files = Map.empty, locked = {}, stdout = []\<rparr>)
      = Inl (HTTPException 422 ''Conversion failed: corrupt stream'')
   \<and> stdout (snd (convert_file (raising ''corrupt stream'') ''/tmp/tmp8k2jq0zd''
        \<lparr>filename = Some ''scan.pdf'', payload = [0x25, 0x50]\<rparr>
        \<lparr>files = Map.empty, locked = {}, stdout = []\<rparr>))
      = [''Conversion error: corrupt stream'']"
  using converter_error_is_422 [of "\<lparr>filename = Some ''scan.pdf'', payload = [0x25, 0x50]\<rparr>"
      "raising ''corrupt stream''" "''/tmp/tmp8k2jq0zd''"
      "\<lparr>files = Map.empty, locked = {}, stdout = []\<rparr>" "''corrupt stream''"
      "staged_world ''/tmp/tmp8k2jq0zd'' \<lparr>filename = Some ''scan.pdf'', payload = [0x25, 0x50]\<rparr>
         \<lparr>files = Map.empty, locked = {}, stdout = []\<rparr>"]
  by (simp add: raising_def staged_world_def)

subsection \<open>Normalisation of the converter's result\<close>



lemma getattr_str: "a name = Some (PyStr t) \<Longrightarrow> getattr_or_None (PyObject a items txt) name = PyStr t"
  by simp

lemma getattr_not_str:
  "\<forall>t. a name \<noteq> Some (PyStr t) \<Longrightarrow> \<not> isinstance_str (getattr_or_None (PyObject a items txt) name)"
  apply (cases "a name")
   apply simp
  subgoal for v by (cases v) simp_all
  done

text \<open>
  C5. The rules of the normalisation are tried in order and the first that applies
  decides: a string is returned as it is; an attribute \<open>text\<close> holding a string goes
  before an attribute \<open>markdown\<close> holding a string; a sequence with an item gives its
  last item if that is a string; everything else is given as \<open>str()\<close> makes it. So a
  payload that is not empty whose conversion is a string is answered with status 200 and
  that string as body.
\<close>

theorem normalization_rule_order:
  "to_markdown_text (PyStr s) = Some s
   \<and> (a ''text'' = Some (PyStr t) \<longrightarrow> to_markdown_text (PyObject a items txt) = Some t)
   \<and> ((\<forall>t. a ''text'' \<noteq> Some (PyStr t)) \<and> a ''markdown'' = Some (PyStr m) \<longrightarrow>
        to_markdown_text (PyObject a items txt) = Some m)
   \<and> ((\<forall>t. a ''text'' \<noteq> Some (PyStr t)) \<and> (\<forall>m. a ''markdown'' \<noteq> Some (PyStr m)) \<and>
        items = Some xs \<and> xs \<noteq> [] \<and> last xs = PyStr l \<longrightarrow>
        to_markdown_text (PyObject a items txt) = Some l)
   \<and> ((\<forall>t. a ''text'' \<noteq> Some (PyStr t)) \<and> (\<forall>m. a ''markdown'' \<noteq> Some (PyStr m)) \<and>
        (items = None \<or> items = Some [] \<or>
         (items = Some xs \<and> xs \<noteq> [] \<and> (\<forall>l. last xs \<noteq> PyStr l))) \<longrightarrow>
        to_markdown_text (PyObject a items txt) = Some txt)
   \<and> (payload file \<noteq> [] \<and>
        convert (staged_path stem file) (staged_world stem file w) = (Inr (PyStr s), w2) \<longrightarrow>
        fst (convert_file convert stem file w) = Inr s
        \<and> response_status (fst (convert_file convert stem file w)) = 200
        \<and> response_text (fst (convert_file convert stem file w)) = s)"
proof (intro conjI impI)
  show "to_markdown_text (PyStr s) = Some s"
    by (simp add: to_markdown_text_def)
next
  assume "a ''text'' = Some (PyStr t)"
  then show "to_markdown_text (PyObject a items txt) = Some t"
    by (simp add: to_markdown_text_def)
next
  assume h: "(\<forall>t. a ''text'' \<noteq> Some (PyStr t)) \<and> a ''markdown'' = Some (PyStr m)"
  then have "\<not> isinstance_str (getattr_or_None (PyObject a items txt) ''text'')"
    using getattr_not_str [of a "''text''"] by blast
  moreover have "getattr_or_None (PyObject a items txt) ''markdown'' = PyStr m"
    using h by simp
  ultimately show "to_markdown_text (PyObject a items txt) = Some m"
    by (simp add: to_markdown_text_def Let_def)
next
  assume h: "(\<forall>t. a ''text'' \<noteq> Some (PyStr t)) \<and> (\<forall>m. a ''markdown'' \<noteq> Some (PyStr m)) \<and>
        items = Some xs \<and> xs \<noteq> [] \<and> last xs = PyStr l"
  then have t: "\<not> isinstance_str (getattr_or_None (PyObject a items txt) ''text'')"
    and m: "\<not> isinstance_str (getattr_or_None (PyObject a items txt) ''markdown'')"
    using getattr_not_str [of a "''text''"] getattr_not_str [of a "''markdown''"] by blast+
  from h obtain y ys where xs: "xs = y # ys" by (cases xs) auto
  have "nonempty_sequence (PyObject a items txt)" and "last_item (PyObject a items txt) = PyStr l"
    using h xs by auto
  with t m show "to_markdown_text (PyObject a items txt) = Some l"
    by (simp add: to_markdown_text_def Let_def)
next
  assume h: "(\<forall>t. a ''text'' \<noteq> Some (PyStr t)) \<and> (\<forall>m. a ''markdown'' \<noteq> Some (PyStr m)) \<and>
        (items = None \<or> items = Some [] \<or>
         (items = Some xs \<and> xs \<noteq> [] \<and> (\<forall>l. last xs \<noteq> PyStr l)))"
  then have t: "\<not> isinstance_str (getattr_or_None (PyObject a items txt) ''text'')"
    and m: "\<not> isinstance_str (getattr_or_None (PyObject a items txt) ''markdown'')"
    using getattr_not_str [of a "''text''"] getattr_not_str [of a "''markdown''"] by blast+
  have "\<not> (nonempty_sequence (PyObject a items txt) \<and> isinstance_str (last_item (PyObject a items txt)))"
  proof -
    consider "items = None" | "items = Some []"
      | "items = Some xs \<and> xs \<noteq> [] \<and> (\<forall>l. last xs \<noteq> PyStr l)"
      using h by blast
    then show ?thesis
    proof cases
      case 1 then show ?thesis by simp
    next
      case 2 then show ?thesis by simp
    next
      case 3
      then obtain y ys where xs: "xs = y # ys" by (cases xs) auto
      have "\<not> isinstance_str (last xs)"
        using 3 by (cases "last xs") simp_all
      with 3 xs show ?thesis by simp
    qed
  qed
  with t m show "to_markdown_text (PyObject a items txt) = Some txt"
    unfolding to_markdown_text_def Let_def by auto
next
  assume h: "payload file \<noteq> [] \<and>
        convert (staged_path stem file) (staged_world stem file w) = (Inr (PyStr s), w2)"
  then have eq: "fst (convert_file convert stem file w) = Inr s"
    using convert_file_nonempty [of "file" convert stem w "Inr (PyStr s)" w2]
    by (simp add: to_markdown_text_def)
  then show "fst (convert_file convert stem file w) = Inr s" .
  from eq show "response_status (fst (convert_file convert stem file w)) = 200"
    by (simp add: response_status_def)
  from eq show "response_text (fst (convert_file convert stem file w)) = s"
    by (simp add: response_text_def)
qed

theorem normalization_rule_order_witness:
  "to_markdown_text (PyObject (Map.empty(''text'' \<mapsto> PyStr ''from text'', ''markdown'' \<mapsto> PyStr ''from markdown''))
       (Some [PyStr ''last'']) ''repr'') = Some ''from text''
   \<and> to_markdown_text (PyObject (Map.empty(''markdown'' \<mapsto> PyStr ''from markdown''))
       (Some [PyStr ''last'']) ''repr'') = Some ''from markdown''
   \<and> to_markdown_text (PyObject Map.empty (Some [PyNone, PyStr ''last'']) ''repr'') = Some ''last''
   \<and> to_markdown_text (PyObject Map.empty (Some [PyStr ''first'', PyNone]) ''repr'') = Some ''repr''
   \<and> fst (convert_file (returning (PyStr (''# Report'' @ [CHR 0x0A, CHR 0x0A] @ ''Body''))) ''/tmp/tmp8k2jq0zd''
        \<lparr>filename = Some ''report.docx'', payload = [0x50, 0x4B]\<rparr>
        \<lparr>files = Map.empty, locked = {}, stdout = []\<rparr>)
      = Inr (''# Report'' @ [CHR 0x0A, CHR 0x0A] @ ''Body'')"
proof (intro conjI)
  show "to_markdown_text (PyObject (Map.empty(''text'' \<mapsto> PyStr ''from text'', ''markdown'' \<mapsto> PyStr ''from markdown''))
       (Some [PyStr ''last'']) ''repr'') = Some ''from text''"
    using normalization_rule_order [of _ "Map.empty(''text'' \<mapsto> PyStr ''from text'', ''markdown'' \<mapsto> PyStr ''from markdown'')"
        "''from text''" "Some [PyStr ''last'']" "''repr''"]
    by simp
  show "to_markdown_text (PyObject (Map.empty(''markdown'' \<mapsto> PyStr ''from markdown''))
       (Some [PyStr ''last'']) ''repr'') = Some ''from markdown''"
    using normalization_rule_order [of _ "Map.empty(''markdown'' \<mapsto> PyStr ''from markdown'')"
        _ "Some [PyStr ''last'']" "''repr''" "''from markdown''"]
    by simp
  show "to_markdown_text (PyObject Map.empty (Some [PyNone, PyStr ''last'']) ''repr'') = Some ''last''"
    using normalization_rule_order [of _ "Map.empty" _ "Some [PyNone, PyStr ''last'']" "''repr''" _
        "[PyNone, PyStr ''last'']" "''last''"]
    by simp
  show "to_markdown_text (PyObject Map.empty (Some [PyStr ''first'', PyNone]) ''repr'') = Some ''repr''"
    using normalization_rule_order [of _ "Map.empty" _ "Some [PyStr ''first'', PyNone]" "''repr''" _
        "[PyStr ''first'', PyNone]"]
    by simp
  show "fst (convert_file (returning (PyStr (''# Report'' @ [CHR 0x0A, CHR 0x0A] @ ''Body''))) ''/tmp/tmp8k2jq0zd''
        \<lparr>filename = Some ''report.docx'', payload = [0x50, 0x4B]\<rparr>
        \<lparr>files = Map.empty, locked = {}, stdout = []\<rparr>)
      = Inr (''# Report'' @ [CHR 0x0A, CHR 0x0A] @ ''Body'')"
    using normalization_rule_order [of "''# Report'' @ [CHR 0x0A, CHR 0x0A] @ ''Body''" _ _ _ _ _ _ _
        "\<lparr>filename = Some ''report.docx'', payload = [0x50, 0x4B]\<rparr>"
        "returning (PyStr (''# Report'' @ [CHR 0x0A, CHR 0x0A] @ ''Body''))" "''/tmp/tmp8k2jq0zd''"
        "\<lparr>files = Map.empty, locked = {}, stdout = []\<rparr>"
        "staged_world ''/tmp/tmp8k2jq0zd'' \<lparr>filename = Some ''report.docx'', payload = [0x50, 0x4B]\<rparr>
           \<lparr>files = Map.empty, locked = {}, stdout = []\<rparr>"]
    by (simp add: returning_def)
qed

text \<open>
  C10. A converter that returns the empty string for a payload that is not empty is
  answered with status 200 and an empty body: only the payload is tested for emptiness,
  and the empty string is a string like any other for the normalisation.
\<close>

theorem empty_result_is_200:
  assumes "payload file \<noteq> []"
    and "convert (staged_path stem file) (staged_world stem file w) = (Inr (PyStr []), w2)"
  shows "fst (convert_file convert stem file w) = Inr []
    \<and> response_status (fst (convert_file convert stem file w)) = 200
    \<and> response_text (fst (convert_file convert stem file w)) = []"
  using assms convert_file_nonempty [of "file" convert stem w "Inr (PyStr [])" w2]
  by (simp add: to_markdown_text_def response_status_def response_text_def)

theorem empty_result_is_200_witness:
  "payload \<lparr>filename = Some ''blank.png'', payload = [0x89]\<rparr> \<noteq> []
   \<and> fst (convert_file (returning (PyStr [])) ''/tmp/tmp8k2jq0zd''
          \<lparr>filename = Some ''blank.png'', payload = [0x89]\<rparr>
          \<lparr>files = Map.empty, locked = {}, stdout = []\<rparr>) = Inr []
   \<and> response_status (fst (convert_file (returning (PyStr [])) ''/tmp/tmp8k2jq0zd''
          \<lparr>filename = Some ''blank.png'', payload = [0x89]\<rparr>
          \<lparr>files = Map.empty, locked = {}, stdout = []\<rparr>)) = 200"
  using empty_result_is_200 [of "\<lparr>filename = Some ''blank.png'', payload = [0x89]\<rparr>"
      "returning (PyStr [])" "''/tmp/tmp8k2jq0zd''"
      "\<lparr>files = Map.empty, locked = {}, stdout = []\<rparr>"
      "staged_world ''/tmp/tmp8k2jq0zd'' \<lparr>filename = Some ''blank.png'', payload = [0x89]\<rparr>
         \<lparr>files = Map.empty, locked = {}, stdout = []\<rparr>"]
  by (simp add: returning_def response_status_def)

subsection \<open>The staged file\<close>




subsection \<open>The suffix of the staged file\<close>











subsection \<open>The supported extensions\<close>

lemma finite_fold_visit: "finite acc \<Longrightarrow> finite (fold visit items acc)"
  by (induction items arbitrary: acc) (auto simp: visit_def split: conv_reg.splits)

lemma introspected_fold: "\<exists>items. introspected reg = fold visit items {}"
proof (cases reg)
  case (ConverterList items)
  then have "introspected reg = fold visit items {}"
    by (cases items) (simp_all add: introspected_def)
  then show ?thesis by blast
next
  case AttrMissing
  then have "introspected reg = fold visit [] {}" by (simp add: introspected_def)
  then show ?thesis by blast
next
  case NotAList
  then have "introspected reg = fold visit [] {}" by (simp add: introspected_def)
  then show ?thesis by blast
qed

lemma finite_introspected: "finite (introspected reg)"
  using introspected_fold [of reg] finite_fold_visit [of "{}"] by auto

lemma after_update_nonempty: "extensions_after_update reg \<noteq> {}"
  by (simp add: extensions_after_update_def always_added_def)

lemma impl_eq: "supported_extensions_impl reg = sorted_list_of_set (extensions_after_update reg)"
  using after_update_nonempty [of reg]
  by (simp add: supported_extensions_impl_def Let_def)

lemma finite_after_update: "finite (extensions_after_update reg)"
  by (simp add: extensions_after_update_def finite_introspected)

lemma set_impl: "set (supported_extensions_impl reg) = introspected reg \<union> set always_added"
  using finite_after_update [of reg] by (simp add: impl_eq extensions_after_update_def)

lemma always_added_in_result:
  "x \<in> set always_added \<Longrightarrow> x \<in> set (supported_extensions_impl reg)"
  by (simp add: set_impl)

lemma always_added_members:
  "''.yaml'' \<in> set always_added" "''.yml'' \<in> set always_added" "''.tsv'' \<in> set always_added"
  "''.rtf'' \<in> set always_added" "''.eml'' \<in> set always_added" "''.tex'' \<in> set always_added"
  by (simp_all add: always_added_def)

text \<open>
  C7. Whatever the registry is (missing, not a list, an empty list, any list of items),
  the list \<open>GET /supported-extensions\<close> answers with holds \<open>.yaml\<close>, \<open>.yml\<close>, \<open>.tsv\<close>,
  \<open>.rtf\<close>, \<open>.eml\<close> and \<open>.tex\<close>. So it is never empty, and the set tested on line 125 is
  never empty either: the fallback list of lines 126 to 131 is never used, the result
  is always the sorted set of line 122.
\<close>

theorem always_added_extensions_present:
  "''.yaml'' \<in> set (supported_extensions_impl reg)
   \<and> ''.yml'' \<in> set (supported_extensions_impl reg)
   \<and> ''.tsv'' \<in> set (supported_extensions_impl reg)
   \<and> ''.rtf'' \<in> set (supported_extensions_impl reg)
   \<and> ''.eml'' \<in> set (supported_extensions_impl reg)
   \<and> ''.tex'' \<in> set (supported_extensions_impl reg)
   \<and> supported_extensions_impl reg \<noteq> []
   \<and> extensions_after_update reg \<noteq> {}
   \<and> supported_extensions_impl reg = sorted_list_of_set (extensions_after_update reg)
   \<and> content (supported_extensions reg) =
        JObject [(''extensions'', JArray (map JString (supported_extensions_impl reg)))]"
proof (intro conjI)
  show yaml: "''.yaml'' \<in> set (supported_extensions_impl reg)"
    by (rule always_added_in_result) (rule always_added_members)
  show "''.yml'' \<in> set (supported_extensions_impl reg)"
    by (rule always_added_in_result) (rule always_added_members)
  show "''.tsv'' \<in> set (supported_extensions_impl reg)"
    by (rule always_added_in_result) (rule always_added_members)
  show "''.rtf'' \<in> set (supported_extensions_impl reg)"
    by (rule always_added_in_result) (rule always_added_members)
  show "''.eml'' \<in> set (supported_extensions_impl reg)"
    by (rule always_added_in_result) (rule always_added_members)
  show "''.tex'' \<in> set (supported_extensions_impl reg)"
    by (rule always_added_in_result) (rule always_added_members)
  from yaml have "0 < length (supported_extensions_impl reg)"
    by (rule length_pos_if_in_set)
  then show "supported_extensions_impl reg \<noteq> []" by simp
  show "extensions_after_update reg \<noteq> {}" by (rule after_update_nonempty)
  show "supported_extensions_impl reg = sorted_list_of_set (extensions_after_update reg)"
    by (rule impl_eq)
  show "content (supported_extensions reg) =
        JObject [(''extensions'', JArray (map JString (supported_extensions_impl reg)))]"
    by (simp add: supported_extensions_def)
qed

theorem always_added_extensions_present_witness:
  "''.yaml'' \<in> set (supported_extensions_impl AttrMissing)
   \<and> ''.tex'' \<in> set (supported_extensions_impl NotAList)
   \<and> ''.yml'' \<in> set (supported_extensions_impl (ConverterList []))
   \<and> ''.eml'' \<in> set (supported_extensions_impl (ConverterList [NoConverterAttr, HasConverter ''PdfConverter'']))"
proof (intro conjI)
  show "''.yaml'' \<in> set (supported_extensions_impl AttrMissing)"
    using always_added_extensions_present [of AttrMissing] by (elim conjE)
  show "''.tex'' \<in> set (supported_extensions_impl NotAList)"
    using always_added_extensions_present [of NotAList] by (elim conjE)
  show "''.yml'' \<in> set (supported_extensions_impl (ConverterList []))"
    using always_added_extensions_present [of "ConverterList []"] by (elim conjE)
  show "''.eml'' \<in> set (supported_extensions_impl (ConverterList [NoConverterAttr, HasConverter ''PdfConverter'']))"
    using always_added_extensions_present
      [of "ConverterList [NoConverterAttr, HasConverter ''PdfConverter'']"]
    by (elim conjE)
qed



subsection \<open>One handler, one rule\<close>

lemma lower_PdfCsvConverter: "lower ''PdfCsvConverter'' = ''pdfcsvconverter''"
  by (simp add: lower_def lower_char_def)

lemma pdfcsv_has_pdf: "sublist ''pdf'' ''pdfcsvconverter''"
  by (simp add: sublist_code)

lemma pdfcsv_has_csv: "sublist ''csv'' ''pdfcsvconverter''"
  by (simp add: sublist_code)

lemma extensions_for_pdf_first: "sublist ''pdf'' name \<Longrightarrow> extensions_for name = [''.pdf'']"
  by (simp add: extensions_for_def)

lemma introspected_PdfCsv:
  "introspected (ConverterList [HasConverter ''PdfCsvConverter'']) = {''.pdf''}"
  using extensions_for_pdf_first [OF pdfcsv_has_pdf]
  by (simp add: introspected_def visit_def lower_PdfCsvConverter)

lemma csv_not_always_added: "''.csv'' \<notin> set always_added"
  by (simp add: always_added_def)

lemma all_matches_PdfCsv: "all_matches ''pdfcsvconverter'' = [''.pdf'', ''.csv'']"
  by (simp add: all_matches_def marker_rules_def sublist_code)

text \<open>
  C9, as the specification states it, fails on a handler of type \<open>PdfCsvConverter\<close>: its
  lowercased name contains the markers \<open>pdf\<close> and \<open>csv\<close>, both rules match it
  (\<open>all_matches\<close>), and the list returned holds \<open>.pdf\<close> but not \<open>.csv\<close>.
\<close>

theorem first_rule_only_counterexample:
  "sublist ''pdf'' (lower ''PdfCsvConverter'')
   \<and> sublist ''csv'' (lower ''PdfCsvConverter'')
   \<and> all_matches (lower ''PdfCsvConverter'') = [''.pdf'', ''.csv'']
   \<and> ''.pdf'' \<in> set (supported_extensions_impl (ConverterList [HasConverter ''PdfCsvConverter'']))
   \<and> ''.csv'' \<notin> set (supported_extensions_impl (ConverterList [HasConverter ''PdfCsvConverter'']))"
  using csv_not_always_added
  by (simp add: set_impl introspected_PdfCsv lower_PdfCsvConverter pdfcsv_has_pdf pdfcsv_has_csv
      all_matches_PdfCsv)

text \<open>
  C9, amended. A handler contributes the extensions of one rule at most: of the first
  rule, in the order of the table, that its lowercased type name matches. A name that
  contains several markers gets the extensions of the first matching rule only; with
  both \<open>pdf\<close> and \<open>csv\<close> in the name that is \<open>.pdf\<close> alone.
\<close>

theorem handler_contributes_first_match_only:
  "extensions_for name = first_match name
   \<and> visit (HasConverter type_name) extensions = extensions \<union> set (first_match (lower type_name))
   \<and> set (supported_extensions_impl (ConverterList [HasConverter type_name])) =
        set (first_match (lower type_name)) \<union> set always_added
   \<and> (sublist ''pdf'' name \<and> sublist ''csv'' name \<longrightarrow> extensions_for name = [''.pdf''])"
proof (intro conjI impI)
  show eq: "extensions_for name = first_match name" for name
    by (simp add: extensions_for_def first_match_def marker_rules_def)
  show "visit (HasConverter type_name) extensions = extensions \<union> set (first_match (lower type_name))"
    by (simp add: visit_def eq)
  show "set (supported_extensions_impl (ConverterList [HasConverter type_name])) =
        set (first_match (lower type_name)) \<union> set always_added"
    by (simp add: set_impl introspected_def visit_def eq)
  show "extensions_for name = [''.pdf'']" if "sublist ''pdf'' name \<and> sublist ''csv'' name"
    using that extensions_for_pdf_first [of name] by blast
qed

theorem handler_contributes_first_match_only_witness:
  "sublist ''pdf'' ''pdfcsvconverter'' \<and> sublist ''csv'' ''pdfcsvconverter''
   \<and> extensions_for ''pdfcsvconverter'' = [''.pdf'']"
  using handler_contributes_first_match_only [of "''pdfcsvconverter''"] pdfcsv_has_pdf pdfcsv_has_csv
  by blast

end
